theory Spec2Isabelle
  imports Main
begin

section \<open>The settings module pelicanconf.py\<close>

text \<open>
  The module is a sequence of top-level statements: one \<^verbatim>\<open>from __future__ import\<close>
  and thirteen assignments of a literal to a name. Executing the module (loading the
  configuration) runs the statements in order on the module's namespace. The model
  passes the namespace explicitly: a statement is a function from the namespace before
  it to the namespace after it.
\<close>

subsection \<open>Values and namespaces\<close>

text \<open>
  Python values are dynamically typed, so the namespace holds values of one type.
  \<open>PyStr\<close> is the text string: the module starts with
  \<^verbatim>\<open>from __future__ import unicode_literals\<close>, so the literals written \<^verbatim>\<open>'...'\<close>
  and those written \<^verbatim>\<open>u'...'\<close> have the same type. Every literal of the module is
  ASCII, so one \<open>char\<close> is one character. \<open>PyList\<close> is the mutable sequence, beside the
  immutable \<open>PyTuple\<close>; \<open>PyFeature\<close> is the object that a \<^verbatim>\<open>__future__\<close> import binds.
\<close>

datatype pyval =
    PyNone
  | PyBool bool
  | PyInt int
  | PyStr string
  | PyTuple "pyval list"
  | PyList "pyval list"
  | PyFeature string

type_synonym namespace = "string \<rightharpoonup> pyval"

type_synonym statement = "namespace \<Rightarrow> namespace"

text \<open>\<^verbatim>\<open>NAME = value\<close>: binds the name, whatever it was bound to before.\<close>

definition assign :: "string \<Rightarrow> pyval \<Rightarrow> statement" where
  "assign name v ns = ns(name \<mapsto> v)"

text \<open>\<^verbatim>\<open>from __future__ import feature\<close>: binds the feature's name to its object.\<close>

definition from_future_import :: "string \<Rightarrow> statement" where
  "from_future_import feature ns = ns(feature \<mapsto> PyFeature feature)"

subsection \<open>The module body\<close>

text \<open>
  The statements of pelicanconf.py, in source order (lines 3 to 29). Lines 30 and 33 are
  comments and execute nothing.
\<close>

definition statements :: "statement list" where
  "statements =
    [from_future_import ''unicode_literals'',
     assign ''AUTHOR'' (PyStr ''Daniel Hochman''),
     assign ''SITENAME'' (PyStr ''/var/log/danielhochman''),
     assign ''SITEURL'' (PyStr ''http://localhost:8000''),
     assign ''TIMEZONE'' (PyStr ''America/Los_Angeles''),
     assign ''DEFAULT_LANG'' (PyStr ''en''),
     assign ''FEED_ALL_ATOM'' PyNone,
     assign ''CATEGORY_FEED_ATOM'' PyNone,
     assign ''TRANSLATION_FEED_ATOM'' PyNone,
     assign ''DEFAULT_PAGINATION'' (PyInt 1),
     assign ''MENUITEMS'' (PyTuple [PyTuple [PyStr ''Archives'', PyStr ''/archives.html'']]),
     assign ''DISPLAY_PAGES_ON_MENU'' (PyBool True),
     assign ''FILES_TO_COPY'' (PyTuple [PyTuple [PyStr ''extra/favicon.ico'', PyStr ''favicon.ico'']]),
     assign ''THEME'' (PyStr ''themes/pelican-foundation-mod'')]"

text \<open>Running statements one after the other, each on the namespace the previous one left.\<close>

definition exec :: "statement list \<Rightarrow> namespace \<Rightarrow> namespace" where
  "exec stmts ns = fold (\<lambda>stmt ns'. stmt ns') stmts ns"

text \<open>
  Loading the configuration: the module body run on the namespace \<open>ns\<close> that the
  interpreter hands to the module (it holds \<^verbatim>\<open>__name__\<close>, \<^verbatim>\<open>__file__\<close> and so on, and
  on a reload whatever the previous load left).
\<close>

definition pelicanconf :: "namespace \<Rightarrow> namespace" where
  "pelicanconf ns = exec statements ns"

text \<open>The settings of the module: the names its assignments bind, in source order.\<close>

definition settings :: "string list" where
  "settings =
    [''AUTHOR'', ''SITENAME'', ''SITEURL'', ''TIMEZONE'', ''DEFAULT_LANG'',
     ''FEED_ALL_ATOM'', ''CATEGORY_FEED_ATOM'', ''TRANSLATION_FEED_ATOM'',
     ''DEFAULT_PAGINATION'', ''MENUITEMS'', ''DISPLAY_PAGES_ON_MENU'',
     ''FILES_TO_COPY'', ''THEME'']"

subsection \<open>Predicates on settings\<close>

text \<open>A setting is bound and its value satisfies \<open>P\<close>.\<close>

definition setting_is :: "(pyval \<Rightarrow> bool) \<Rightarrow> namespace \<Rightarrow> string \<Rightarrow> bool" where
  "setting_is P ns name = (case ns name of None \<Rightarrow> False | Some v \<Rightarrow> P v)"

text \<open>The three feed settings (lines 14 to 16).\<close>

definition feed_flags :: "string list" where
  "feed_flags = [''FEED_ALL_ATOM'', ''CATEGORY_FEED_ATOM'', ''TRANSLATION_FEED_ATOM'']"

text \<open>A value that is a string or None.\<close>

fun optional_str :: "pyval \<Rightarrow> bool" where
  "optional_str PyNone = True"
| "optional_str (PyStr s) = True"
| "optional_str v = False"

text \<open>
  The comment over the three feed settings (line 13) says what binding them to None is
  for: the feed is not generated. Any other value asks for the feed.
\<close>

fun feed_disabled :: "pyval \<Rightarrow> bool" where
  "feed_disabled PyNone = True"
| "feed_disabled v = False"

text \<open>
  A value that nothing can change in place: a list can be changed, a tuple cannot, and
  a tuple is immutable all the way down when its items are.
\<close>

fun immutable :: "pyval \<Rightarrow> bool" where
  "immutable (PyTuple vs) = list_all immutable vs"
| "immutable (PyList vs) = False"
| "immutable v = True"

text \<open>A site-relative path begins with a slash.\<close>

fun site_relative :: "string \<Rightarrow> bool" where
  "site_relative [] = False"
| "site_relative (c # cs) = (c = CHR ''/'')"

text \<open>A relative path is not empty and does not begin with a slash.\<close>

fun relative_path :: "string \<Rightarrow> bool" where
  "relative_path [] = False"
| "relative_path (c # cs) = (c \<noteq> CHR ''/'')"

text \<open>A menu item: a tuple of exactly two strings, a label and a site-relative path.\<close>

fun menu_item :: "pyval \<Rightarrow> bool" where
  "menu_item (PyTuple [PyStr label, PyStr path]) = site_relative path"
| "menu_item v = False"

text \<open>A copy rule: a tuple of exactly two strings, both relative paths.\<close>

fun copy_pair :: "pyval \<Rightarrow> bool" where
  "copy_pair (PyTuple [PyStr source, PyStr dest]) = (relative_path source \<and> relative_path dest)"
| "copy_pair v = False"

section \<open>What loading leaves in the namespace\<close>

lemma pelicanconf_updates:
  "pelicanconf ns =
     ns(''unicode_literals'' \<mapsto> PyFeature ''unicode_literals'',
        ''AUTHOR'' \<mapsto> PyStr ''Daniel Hochman'',
        ''SITENAME'' \<mapsto> PyStr ''/var/log/danielhochman'',
        ''SITEURL'' \<mapsto> PyStr ''http://localhost:8000'',
        ''TIMEZONE'' \<mapsto> PyStr ''America/Los_Angeles'',
        ''DEFAULT_LANG'' \<mapsto> PyStr ''en'',
        ''FEED_ALL_ATOM'' \<mapsto> PyNone,
        ''CATEGORY_FEED_ATOM'' \<mapsto> PyNone,
        ''TRANSLATION_FEED_ATOM'' \<mapsto> PyNone,
        ''DEFAULT_PAGINATION'' \<mapsto> PyInt 1,
        ''MENUITEMS'' \<mapsto> PyTuple [PyTuple [PyStr ''Archives'', PyStr ''/archives.html'']],
        ''DISPLAY_PAGES_ON_MENU'' \<mapsto> PyBool True,
        ''FILES_TO_COPY'' \<mapsto> PyTuple [PyTuple [PyStr ''extra/favicon.ico'', PyStr ''favicon.ico'']],
        ''THEME'' \<mapsto> PyStr ''themes/pelican-foundation-mod'')"
  by (simp add: pelicanconf_def exec_def statements_def assign_def from_future_import_def)

text \<open>
  C1. After loading, \<^verbatim>\<open>SITENAME\<close> is the string \<^verbatim>\<open>/var/log/danielhochman\<close>,
  \<^verbatim>\<open>DEFAULT_PAGINATION\<close> is the integer 1, and \<^verbatim>\<open>MENUITEMS\<close> is the sequence holding the
  single pair \<^verbatim>\<open>('Archives', '/archives.html')\<close>, whatever namespace the load started from.
\<close>

theorem loaded_example_values:
  "pelicanconf ns ''SITENAME'' = Some (PyStr ''/var/log/danielhochman'')
   \<and> pelicanconf ns ''DEFAULT_PAGINATION'' = Some (PyInt 1)
   \<and> pelicanconf ns ''MENUITEMS'' =
       Some (PyTuple [PyTuple [PyStr ''Archives'', PyStr ''/archives.html'']])"
  by (simp add: pelicanconf_updates)

text \<open>The module binds every setting, and leaves every name but its own as it found it.\<close>

lemma settings_bound:
  "list_all (\<lambda>name. pelicanconf ns name \<noteq> None) settings"
  by (simp add: pelicanconf_updates settings_def)

lemma pelicanconf_frame:
  "name \<notin> set settings \<Longrightarrow> name \<noteq> ''unicode_literals'' \<Longrightarrow> pelicanconf ns name = ns name"
  by (simp add: pelicanconf_updates settings_def)

text \<open>The predicates tell values apart: each one rejects a value of the wrong shape.\<close>

lemma immutable_rejects_list:
  "\<not> immutable (PyTuple [PyList [PyStr ''Archives'', PyStr ''/archives.html'']])"
  by simp

lemma menu_item_rejects:
  "\<not> menu_item (PyTuple [PyStr ''Archives'', PyStr ''archives.html''])"
  "\<not> menu_item (PyTuple [PyStr ''Archives''])"
  "\<not> menu_item (PyTuple [PyStr ''Archives'', PyStr ''/archives.html'', PyStr ''x''])"
  "\<not> menu_item (PyTuple [PyStr ''Archives'', PyInt 1])"
  by simp_all

lemma copy_pair_rejects:
  "\<not> copy_pair (PyTuple [PyStr ''/etc/favicon.ico'', PyStr ''favicon.ico''])"
  "\<not> copy_pair (PyTuple [PyStr ''extra/favicon.ico'', PyStr []])"
  "\<not> copy_pair (PyTuple [PyStr ''extra/favicon.ico''])"
  by simp_all

lemma feed_disabled_rejects_str:
  "\<not> feed_disabled (PyStr ''feeds/all.atom.xml'')"
  by simp

section \<open>The settings, one by one\<close>

text \<open>
  C2. Each of the three feed settings is bound to a string or to None; here each is bound
  to None, so the feed of each is not generated.
\<close>

theorem feed_flags_null:
  "list_all (setting_is optional_str (pelicanconf ns)) feed_flags
   \<and> list_all (\<lambda>name. pelicanconf ns name = Some PyNone) feed_flags
   \<and> list_all (setting_is feed_disabled (pelicanconf ns)) feed_flags"
  by (simp add: pelicanconf_updates feed_flags_def setting_is_def)

text \<open>
  C5. \<^verbatim>\<open>DEFAULT_PAGINATION\<close> is bound to an integer, and the integer is greater than zero.
\<close>

theorem default_pagination_positive:
  "\<exists>n. pelicanconf ns ''DEFAULT_PAGINATION'' = Some (PyInt n) \<and> 0 < n"
  by (simp add: pelicanconf_updates)

text \<open>
  C6. \<^verbatim>\<open>AUTHOR\<close> and \<^verbatim>\<open>SITENAME\<close> are bound to strings, and neither string is empty.
\<close>

theorem author_site_name_nonempty:
  "\<exists>a s. pelicanconf ns ''AUTHOR'' = Some (PyStr a) \<and> 0 < length a
     \<and> pelicanconf ns ''SITENAME'' = Some (PyStr s) \<and> 0 < length s"
  by (simp add: pelicanconf_updates)

text \<open>
  C7. \<^verbatim>\<open>MENUITEMS\<close> is bound to a sequence (a tuple, which keeps the order of its items),
  every item of it is a tuple of exactly two strings, and the second string of every item,
  the path, begins with a slash.
\<close>

theorem menu_items_wellformed:
  "\<exists>items. pelicanconf ns ''MENUITEMS'' = Some (PyTuple items) \<and> list_all menu_item items"
  by (simp add: pelicanconf_updates)

text \<open>
  C8. \<^verbatim>\<open>FILES_TO_COPY\<close> is bound to a sequence whose every item is a pair of strings,
  source and destination, neither of them empty and neither beginning with a slash.
\<close>

theorem files_to_copy_relative:
  "\<exists>pairs. pelicanconf ns ''FILES_TO_COPY'' = Some (PyTuple pairs) \<and> list_all copy_pair pairs"
  by (simp add: pelicanconf_updates)

text \<open>C9. \<^verbatim>\<open>DISPLAY_PAGES_ON_MENU\<close> is bound to the boolean True.\<close>

theorem display_pages_on_menu_true:
  "pelicanconf ns ''DISPLAY_PAGES_ON_MENU'' = Some (PyBool True)"
  by (simp add: pelicanconf_updates)

text \<open>
  C10. \<^verbatim>\<open>FILES_TO_COPY\<close> holds exactly one pair: source \<^verbatim>\<open>extra/favicon.ico\<close>,
  destination \<^verbatim>\<open>favicon.ico\<close>.
\<close>

theorem files_to_copy_value:
  "pelicanconf ns ''FILES_TO_COPY'' =
     Some (PyTuple [PyTuple [PyStr ''extra/favicon.ico'', PyStr ''favicon.ico'']])"
  by (simp add: pelicanconf_updates)

section \<open>Loading as a whole\<close>

text \<open>
  C3. Loading is deterministic: two loads, from whatever namespaces they start, leave the
  same value in every setting.
\<close>

theorem load_deterministic:
  "map (pelicanconf ns) settings = map (pelicanconf ns') settings"
  by (simp add: pelicanconf_updates settings_def)

text \<open>
  C4. The configuration is immutable after load, and no setting is derived from another.
  The module body is the only code of the component. It is a sequence of bindings of
  constants to names: no statement reads the namespace, so no value is computed from
  another setting. The names are pairwise distinct and are \<^verbatim>\<open>unicode_literals\<close> and the
  settings: no statement rebinds what an earlier one bound. After the load, looking a
  name up gives the constant that its statement bound, whatever the namespace held
  before. Running the module body again on a loaded namespace changes nothing. Every
  value bound to a setting is immutable, so it cannot be changed in place either.
\<close>

theorem config_immutable:
  "(\<exists>bs. statements = map (\<lambda>(name, v). assign name v) bs
         \<and> distinct (map fst bs)
         \<and> map fst bs = ''unicode_literals'' # settings
         \<and> list_all (\<lambda>(name, v). \<forall>ns. pelicanconf ns name = Some v) bs)
   \<and> (\<forall>ns. pelicanconf (pelicanconf ns) = pelicanconf ns)
   \<and> (\<forall>ns. list_all (setting_is immutable (pelicanconf ns)) settings)"
proof (intro conjI)
  let ?bs = "[(''unicode_literals'', PyFeature ''unicode_literals''),
     (''AUTHOR'', PyStr ''Daniel Hochman''),
     (''SITENAME'', PyStr ''/var/log/danielhochman''),
     (''SITEURL'', PyStr ''http://localhost:8000''),
     (''TIMEZONE'', PyStr ''America/Los_Angeles''),
     (''DEFAULT_LANG'', PyStr ''en''),
     (''FEED_ALL_ATOM'', PyNone),
     (''CATEGORY_FEED_ATOM'', PyNone),
     (''TRANSLATION_FEED_ATOM'', PyNone),
     (''DEFAULT_PAGINATION'', PyInt 1),
     (''MENUITEMS'', PyTuple [PyTuple [PyStr ''Archives'', PyStr ''/archives.html'']]),
     (''DISPLAY_PAGES_ON_MENU'', PyBool True),
     (''FILES_TO_COPY'', PyTuple [PyTuple [PyStr ''extra/favicon.ico'', PyStr ''favicon.ico'']]),
     (''THEME'', PyStr ''themes/pelican-foundation-mod'')]"
  have bound: "statements = map (\<lambda>(name, v). assign name v) ?bs"
    by (simp add: statements_def from_future_import_def assign_def fun_eq_iff)
  have once: "distinct (map fst ?bs)"
    by simp
  have names: "map fst ?bs = ''unicode_literals'' # settings"
    by (simp add: settings_def)
  have kept: "list_all (\<lambda>(name, v). \<forall>ns. pelicanconf ns name = Some v) ?bs"
    by (simp add: pelicanconf_updates)
  show "\<exists>bs. statements = map (\<lambda>(name, v). assign name v) bs
         \<and> distinct (map fst bs)
         \<and> map fst bs = ''unicode_literals'' # settings
         \<and> list_all (\<lambda>(name, v). \<forall>ns. pelicanconf ns name = Some v) bs"
    by (rule exI [of _ ?bs]) (intro conjI bound once names kept)
next
  show "\<forall>ns. pelicanconf (pelicanconf ns) = pelicanconf ns"
  proof
    fix ns
    show "pelicanconf (pelicanconf ns) = pelicanconf ns"
      by (rule ext) (simp add: pelicanconf_updates)
  qed
next
  show "\<forall>ns. list_all (setting_is immutable (pelicanconf ns)) settings"
    by (simp add: pelicanconf_updates settings_def setting_is_def)
qed

end
